theory Spec2Isabelle
  imports Main "HOL-Library.Word" "HOL-Library.List_Lexorder"
begin

unbundle bit_operations_syntax

section \<open>Basic types\<close>

text \<open>
  Go's \<open>[]byte\<close> is a list of 8-bit words, \<open>int64\<close> a 64-bit word (\<open>+\<close> wraps,
  \<open>sint\<close> reads the signed value). Go's \<open>int\<close> is taken at its 64-bit width. A Go
  \<open>error\<close> is a value that carries its message (what \<open>err.Error()\<close> returns); a
  function returning \<open>(x, err)\<close> becomes one returning \<open>error + 'a\<close>.
\<close>

type_synonym bytes = "8 word list"
type_synonym int64 = "64 word"

datatype error = Error string

fun Error_msg :: "error \<Rightarrow> string" where
  "Error_msg (Error m) = m"

section \<open>types: processes, votes, callback data\<close>

text \<open>The struct \<open>types.Process\<close>, field by field.\<close>

record Process =
  Canceled :: bool
  CommitmentKeys :: "string list"
  EncryptionPrivateKeys :: "string list"
  EncryptionPublicKeys :: "string list"
  EntityID :: bytes
  KeyIndex :: int64
  MkRoot :: string
  NumberOfBlocks :: int64
  Paused :: bool
  RevealKeys :: "string list"
  StartBlock :: int64
  Type :: string

text \<open>
  Modelled from the spec: the four process type constants \<open>PollVote\<close>, \<open>PetitionSign\<close>,
  \<open>EncryptedPoll\<close> and \<open>SnarkVote\<close> are declared in a file of package \<open>types\<close> that is
  not part of the sources at hand; the specification names the four types as
  \<open>poll-vote\<close>, \<open>petition-sign\<close>, \<open>encrypted-poll\<close> and \<open>snark-vote\<close>.
\<close>

definition PollVote :: string where "PollVote = ''poll-vote''"
definition PetitionSign :: string where "PetitionSign = ''petition-sign''"
definition EncryptedPoll :: string where "EncryptedPoll = ''encrypted-poll''"
definition SnarkVote :: string where "SnarkVote = ''snark-vote''"

text \<open>
  The two package-level tables are Go maps from the type name to a flag, written here as
  association lists in the order of the source. Indexing a Go map with a key it does not
  hold gives the zero value, \<open>false\<close>.
\<close>

definition ProcessRequireKeys :: "(string \<times> bool) list" where
  "ProcessRequireKeys =
     [(PollVote, False), (PetitionSign, False), (EncryptedPoll, True), (SnarkVote, True)]"

definition ProcessIsEncrypted :: "(string \<times> bool) list" where
  "ProcessIsEncrypted =
     [(PollVote, False), (PetitionSign, False), (EncryptedPoll, True), (SnarkVote, True)]"

definition go_index :: "(string \<times> bool) list \<Rightarrow> string \<Rightarrow> bool" where
  "go_index m k = (case map_of m k of None \<Rightarrow> False | Some b \<Rightarrow> b)"

definition RequireKeys :: "Process \<Rightarrow> bool" where
  "RequireKeys p = go_index ProcessRequireKeys (Type p)"

definition IsEncrypted :: "Process \<Rightarrow> bool" where
  "IsEncrypted p = go_index ProcessIsEncrypted (Type p)"

text \<open>
  \<open>types.Vote\<close> and \<open>types.ScrutinizerOnProcessData\<close>. Field names that other records
  use as well carry a suffix (\<open>_v\<close> for the vote, \<open>_d\<close> for the callback data).
\<close>

record Vote =
  EncryptionKeyIndexes :: "int64 list"
  Height :: int64
  Nullifier :: bytes
  ProcessID_v :: bytes
  VotePackage :: string

record ScrutinizerOnProcessData =
  EntityID_d :: bytes
  ProcessID_d :: bytes

section \<open>The scrutinizer\<close>

text \<open>
  The struct \<open>Scrutinizer\<close>. \<open>VochainState\<close> is the state of the chain the scrutinizer
  reads from (of an abstract type \<open>'vs\<close>), \<open>Storage\<close> its own key-value database (of an
  abstract type \<open>'db\<close>). The pools hold pointers in the source; they are held by value
  here, in the order of the appends.
\<close>

record ('vs, 'db) Scrutinizer =
  VochainState :: 'vs
  Storage :: 'db
  votePool :: "Vote list"
  processPool :: "ScrutinizerOnProcessData list"
  resultsPool :: "ScrutinizerOnProcessData list"
  entityCount :: int64

text \<open>
  The scrutinizer calls functions of this repository whose bodies are not in the sources
  at hand: \<open>State.Process\<close> and \<open>State.AddEventListener\<close> of package \<open>vochain\<close>,
  \<open>db.NewBadgerDB\<close>, and its own methods \<open>addEntity\<close>, \<open>isLiveResultsProcess\<close>,
  \<open>addLiveResultsProcess\<close>, \<open>registerPendingProcess\<close> and \<open>addLiveResultsVote\<close>. They
  are parameters of the model, collected in one record. A method with a pointer receiver
  may change any field of the scrutinizer, so the mutating ones map a scrutinizer to a
  scrutinizer; the two queries only read. \<open>NewIterator\<close> gives the keys of the database
  in the order in which its iterator visits them. The constant
  \<open>types.ScrutinizerEntityPrefix\<close>, the one-byte prefix of the entity keys, is declared
  outside these sources as well and is a parameter too.
\<close>

record ('vs, 'db) helpers =
  State_Process :: "'vs \<Rightarrow> bytes \<Rightarrow> bool \<Rightarrow> error + Process"
  AddEventListener :: "'vs \<Rightarrow> 'vs"
  NewBadgerDB :: "string \<Rightarrow> error + 'db"
  NewIterator :: "'db \<Rightarrow> bytes list"
  ScrutinizerEntityPrefix :: "8 word"
  addEntity :: "bytes \<Rightarrow> bytes \<Rightarrow> ('vs, 'db) Scrutinizer \<Rightarrow> ('vs, 'db) Scrutinizer"
  isLiveResultsProcess :: "('vs, 'db) Scrutinizer \<Rightarrow> bytes \<Rightarrow> error + bool"
  addLiveResultsProcess :: "bytes \<Rightarrow> ('vs, 'db) Scrutinizer \<Rightarrow> ('vs, 'db) Scrutinizer"
  registerPendingProcess ::
    "bytes \<Rightarrow> int64 \<Rightarrow> ('vs, 'db) Scrutinizer \<Rightarrow> ('vs, 'db) Scrutinizer"
  addLiveResultsVote ::
    "Vote \<Rightarrow> ('vs, 'db) Scrutinizer \<Rightarrow> error option \<times> ('vs, 'db) Scrutinizer"

subsection \<open>Commit\<close>

text \<open>
  The three loops of \<open>Commit\<close>, one function each. A \<open>range\<close> loop evaluates its slice
  once, before the first iteration, so each loop runs over the pool as it was when the
  loop began. An error of \<open>isLiveResultsProcess\<close> or \<open>addLiveResultsVote\<close> is logged
  and the loop continues with the next element. The loop over \<open>resultsPool\<close> counts its
  index \<open>i\<close> from 0 and converts \<open>i + 1\<close> to \<open>int64\<close>.
\<close>

fun Commit_processPool ::
  "('vs, 'db) helpers \<Rightarrow> ScrutinizerOnProcessData list \<Rightarrow> ('vs, 'db) Scrutinizer
     \<Rightarrow> ('vs, 'db) Scrutinizer" where
  "Commit_processPool H [] s = s"
| "Commit_processPool H (p # ps) s =
     (let s1 = addEntity H (EntityID_d p) (ProcessID_d p) s in
      case isLiveResultsProcess H s1 (ProcessID_d p) of
        Inl err \<Rightarrow> Commit_processPool H ps s1
      | Inr isLive \<Rightarrow>
          if isLive then Commit_processPool H ps (addLiveResultsProcess H (ProcessID_d p) s1)
          else Commit_processPool H ps s1)"

fun Commit_resultsPool ::
  "('vs, 'db) helpers \<Rightarrow> int64 \<Rightarrow> nat \<Rightarrow> ScrutinizerOnProcessData list
     \<Rightarrow> ('vs, 'db) Scrutinizer \<Rightarrow> ('vs, 'db) Scrutinizer" where
  "Commit_resultsPool H height i [] s = s"
| "Commit_resultsPool H height i (p # ps) s =
     Commit_resultsPool H height (i + 1) ps
       (registerPendingProcess H (ProcessID_d p) (height + word_of_nat (i + 1)) s)"

fun Commit_votePool ::
  "('vs, 'db) helpers \<Rightarrow> Vote list \<Rightarrow> int64 \<Rightarrow> ('vs, 'db) Scrutinizer
     \<Rightarrow> int64 \<times> ('vs, 'db) Scrutinizer" where
  "Commit_votePool H [] nvotes s = (nvotes, s)"
| "Commit_votePool H (v # vs) nvotes s =
     (case addLiveResultsVote H v s of
        (Some err, s1) \<Rightarrow> Commit_votePool H vs nvotes s1
      | (None, s1) \<Rightarrow> Commit_votePool H vs (nvotes + 1) s1)"

text \<open>
  \<open>Commit\<close> itself. Its first statement starts \<open>checkFinishedProcesses\<close> in a goroutine
  of its own; that task runs beside the rest and is not part of this sequential model.
  The count of added votes is only logged.
\<close>

definition Commit ::
  "('vs, 'db) helpers \<Rightarrow> int64 \<Rightarrow> ('vs, 'db) Scrutinizer \<Rightarrow> ('vs, 'db) Scrutinizer" where
  "Commit H height s =
     (let s1 = Commit_processPool H (processPool s) s;
          s2 = Commit_resultsPool H height 0 (resultsPool s1) s1
      in snd (Commit_votePool H (votePool s2) 0 s2))"

subsection \<open>Rollback and the event callbacks\<close>

definition Rollback :: "('vs, 'db) Scrutinizer \<Rightarrow> ('vs, 'db) Scrutinizer" where
  "Rollback s = s\<lparr>votePool := [], processPool := [], resultsPool := []\<rparr>"

definition OnProcess ::
  "bytes \<Rightarrow> bytes \<Rightarrow> string \<Rightarrow> string \<Rightarrow> ('vs, 'db) Scrutinizer \<Rightarrow> ('vs, 'db) Scrutinizer" where
  "OnProcess pid eid mkroot mkuri s =
     (let data = \<lparr>EntityID_d = eid, ProcessID_d = pid\<rparr>
      in s\<lparr>processPool := processPool s @ [data]\<rparr>)"

definition OnVote ::
  "('vs, 'db) helpers \<Rightarrow> Vote \<Rightarrow> ('vs, 'db) Scrutinizer \<Rightarrow> ('vs, 'db) Scrutinizer" where
  "OnVote H v s =
     (case isLiveResultsProcess H s (ProcessID_v v) of
        Inl err \<Rightarrow> s
      | Inr isLive \<Rightarrow> if isLive then s\<lparr>votePool := votePool s @ [v]\<rparr> else s)"

definition OnCancel :: "bytes \<Rightarrow> ('vs, 'db) Scrutinizer \<Rightarrow> ('vs, 'db) Scrutinizer" where
  "OnCancel pid s = s"

definition OnProcessKeys ::
  "bytes \<Rightarrow> string \<Rightarrow> string \<Rightarrow> ('vs, 'db) Scrutinizer \<Rightarrow> ('vs, 'db) Scrutinizer" where
  "OnProcessKeys pid pub com s = s"

definition OnRevealKeys ::
  "('vs, 'db) helpers \<Rightarrow> bytes \<Rightarrow> string \<Rightarrow> string \<Rightarrow> ('vs, 'db) Scrutinizer
     \<Rightarrow> ('vs, 'db) Scrutinizer" where
  "OnRevealKeys H pid pub com s =
     (case State_Process H (VochainState s) pid False of
        Inl err \<Rightarrow> s
      | Inr p \<Rightarrow>
          if KeyIndex p <s 1
          then (let data = \<lparr>EntityID_d = EntityID p, ProcessID_d = pid\<rparr>
                in s\<lparr>resultsPool := resultsPool s @ [data]\<rparr>)
          else s)"

subsection \<open>List and NewScrutinizer\<close>

text \<open>
  \<open>List\<close> walks the database with a Badger iterator. The iterator visits the keys in
  ascending byte-wise order; its position is the list of the keys not yet visited, the
  current key first. \<open>Seek k\<close> moves to the first key that is not below \<open>k\<close>,
  \<open>ValidForPrefix\<close> holds while there is a current key and it starts with the prefix,
  \<open>Next\<close> drops the current key. \<open>Sprintf("%s%s", prefix, from)\<close> is the prefix
  followed by \<open>from\<close>. The counter \<open>max\<close> (here \<open>mx\<close>) is an \<open>int64\<close>:
  it is decremented after every append and the loop breaks once it is below 1.
\<close>

definition Seek :: "bytes list \<Rightarrow> bytes \<Rightarrow> bytes list" where
  "Seek keys k = dropWhile (\<lambda>x. x < k) keys"

fun List_loop :: "int64 \<Rightarrow> bytes \<Rightarrow> bytes \<Rightarrow> bytes list \<Rightarrow> bytes list \<Rightarrow> bytes list" where
  "List_loop mx from prefix [] lst = lst"
| "List_loop mx from prefix (k # it) lst =
     (if take (length prefix) k \<noteq> prefix then lst
      else
        let key = drop (length prefix) k in
        if 0 < length from \<and> key = from then List_loop mx from prefix it lst
        else
          let lst1 = lst @ [key]; mx1 = mx - 1 in
          if mx1 <s 1 then lst1 else List_loop mx1 from prefix it lst1)"

definition List ::
  "('vs, 'db) helpers \<Rightarrow> int64 \<Rightarrow> bytes \<Rightarrow> bytes \<Rightarrow> ('vs, 'db) Scrutinizer \<Rightarrow> bytes list" where
  "List H mx from prefix s =
     List_loop mx from prefix (Seek (NewIterator H (Storage s)) (prefix @ from)) []"

text \<open>
  \<open>NewScrutinizer\<close> opens the database (an error is returned as it is), counts the
  keys under the entity prefix with \<open>List\<close>, bounded by \<open>int64(^uint(0)>>1)\<close>, and
  registers the scrutinizer as a listener of the chain state.
\<close>

definition NewScrutinizer ::
  "('vs, 'db) helpers \<Rightarrow> string \<Rightarrow> 'vs \<Rightarrow> error + ('vs, 'db) Scrutinizer" where
  "NewScrutinizer H dbPath state =
     (case NewBadgerDB H dbPath of
        Inl err \<Rightarrow> Inl err
      | Inr db \<Rightarrow>
          let s0 = \<lparr>VochainState = state, Storage = db, votePool = [], processPool = [],
                    resultsPool = [], entityCount = 0\<rparr>;
              s1 = s0\<lparr>entityCount :=
                     word_of_nat (length (List H (drop_bit 1 (NOT 0)) []
                                            [ScrutinizerEntityPrefix H] s0))\<rparr>;
              s2 = s1\<lparr>VochainState := AddEventListener H (VochainState s1)\<rparr>
          in Inr s2)"

subsection \<open>A block's callbacks as a list of events\<close>

text \<open>
  The chain state calls the five callbacks of its listeners while it delivers the
  transactions of a block. A run of such calls is a list of events, applied in order.
\<close>

datatype event =
    EvProcess bytes bytes string string
  | EvVote Vote
  | EvCancel bytes
  | EvProcessKeys bytes string string
  | EvRevealKeys bytes string string

fun deliver ::
  "('vs, 'db) helpers \<Rightarrow> event \<Rightarrow> ('vs, 'db) Scrutinizer \<Rightarrow> ('vs, 'db) Scrutinizer" where
  "deliver H (EvProcess pid eid mkroot mkuri) s = OnProcess pid eid mkroot mkuri s"
| "deliver H (EvVote v) s = OnVote H v s"
| "deliver H (EvCancel pid) s = OnCancel pid s"
| "deliver H (EvProcessKeys pid pub com) s = OnProcessKeys pid pub com s"
| "deliver H (EvRevealKeys pid pub com) s = OnRevealKeys H pid pub com s"

section \<open>The application\<close>

text \<open>
  The sources hold two files of package \<open>vochain\<close> that each declare
  \<open>BaseApplication\<close>: one keeps an Amino codec and the whole block header
  (\<open>part_000\<close>), the other keeps only the height (\<open>part_001\<close>). Their methods carry
  the file as a suffix. The request and response structs are those of the consensus
  engine's ABCI package, with the fields that the code reads or sets (the others keep
  their zero values); the suffixes \<open>_c\<close>, \<open>_d\<close>, \<open>_rq\<close> and \<open>_q\<close> tell the structs
  apart. \<open>[]byte(str)\<close> is \<open>string_bytes\<close>.
\<close>

definition string_bytes :: "string \<Rightarrow> bytes" where
  "string_bytes s = map (\<lambda>c. word_of_nat (of_char c)) s"

datatype CheckTxType = CheckTxType_New | CheckTxType_Recheck

record RequestCheckTx =
  Tx_c :: bytes
  Type_c :: CheckTxType

record ResponseCheckTx =
  Code_c :: "32 word"
  Data_c :: bytes
  Log_c :: string
  Info_c :: string

record RequestDeliverTx =
  Tx_d :: bytes

record ResponseDeliverTx =
  Code_d :: "32 word"
  Data_d :: bytes
  Log_d :: string
  Info_d :: string

record RequestQuery =
  Data_rq :: bytes
  Path_rq :: string
  Height_rq :: int64
  Prove_rq :: bool

record ResponseQuery =
  Code_q :: "32 word"
  Log_q :: string
  Info_q :: string
  Value_q :: bytes

record QueryData =
  Method :: string
  ProcessID_q :: string
  Nullifier_q :: string
  From :: int64
  ListSize :: int64
  Timestamp :: int64
  ProcessType :: string

subsection \<open>The application of part\_000\<close>

text \<open>
  \<open>UnmarshalTx\<close> and \<open>AddTx\<close> are not in the sources at hand and are parameters.
  \<open>AddTx\<close> works on the state (it fills the vote cache when checking and applies the
  transaction when delivering), so it returns the state with its result.
\<close>

record ('st, 'tx) helpers_part_000 =
  UnmarshalTx :: "bytes \<Rightarrow> error + 'tx"
  AddTx :: "'tx \<Rightarrow> 'st \<Rightarrow> bool \<Rightarrow> (error + bytes) \<times> 'st"

definition CheckTx_part_000 ::
  "('st, 'tx) helpers_part_000 \<Rightarrow> 'st \<Rightarrow> RequestCheckTx \<Rightarrow> ResponseCheckTx \<times> 'st" where
  "CheckTx_part_000 H st req =
     (if Type_c req = CheckTxType_Recheck
      then (\<lparr>Code_c = 0, Data_c = [], Log_c = [], Info_c = []\<rparr>, st)
      else
        case UnmarshalTx H (Tx_c req) of
          Inr tx \<Rightarrow>
            (case AddTx H tx st False of
               (Inl err, st1) \<Rightarrow>
                 (\<lparr>Code_c = 1, Data_c = string_bytes (Error_msg err), Log_c = [], Info_c = []\<rparr>, st1)
             | (Inr data, st1) \<Rightarrow>
                 (\<lparr>Code_c = 0, Data_c = data, Log_c = [], Info_c = []\<rparr>, st1))
        | Inl err \<Rightarrow>
            (\<lparr>Code_c = 1, Data_c = string_bytes (Error_msg err), Log_c = [], Info_c = []\<rparr>, st))"

definition DeliverTx_part_000 ::
  "('st, 'tx) helpers_part_000 \<Rightarrow> 'st \<Rightarrow> RequestDeliverTx \<Rightarrow> ResponseDeliverTx \<times> 'st" where
  "DeliverTx_part_000 H st req =
     (case UnmarshalTx H (Tx_d req) of
        Inr tx \<Rightarrow>
          (case AddTx H tx st True of
             (Inl err, st1) \<Rightarrow>
               (\<lparr>Code_d = 1, Data_d = string_bytes (Error_msg err), Log_d = [], Info_d = []\<rparr>, st1)
           | (Inr data, st1) \<Rightarrow>
               (\<lparr>Code_d = 0, Data_d = data, Log_d = [], Info_d = []\<rparr>, st1))
      | Inl err \<Rightarrow>
          (\<lparr>Code_d = 1, Data_d = string_bytes (Error_msg err), Log_d = [], Info_d = []\<rparr>, st))"

definition Query_part_000 :: "'st \<Rightarrow> RequestQuery \<Rightarrow> ResponseQuery" where
  "Query_part_000 st req = \<lparr>Code_q = 0, Log_q = [], Info_q = [], Value_q = []\<rparr>"

subsection \<open>The application of part\_001\<close>

text \<open>
  Parameters: \<open>ValidateTx\<close> (of its three results only the error is used),
  \<open>ValidateAndDeliverTx\<close>, the JSON decoding of the query, the state's readers
  \<open>GetEnvelope\<close>, \<open>CountVotes\<close> and \<open>GetHeight\<close>, and the codec's
  \<open>MarshalBinaryBare\<close> at the two types it is used at. \<open>Sprintf("%s_%s", a, b)\<close> is
  \<open>a @ ''_'' @ b\<close>.
\<close>

record 'st helpers_part_001 =
  ValidateTx :: "bytes \<Rightarrow> 'st \<Rightarrow> error option"
  ValidateAndDeliverTx :: "bytes \<Rightarrow> 'st \<Rightarrow> error option \<times> 'st"
  json_Unmarshal :: "bytes \<Rightarrow> error + QueryData"
  GetEnvelope :: "'st \<Rightarrow> string \<Rightarrow> error + Vote"
  CountVotes :: "'st \<Rightarrow> string \<Rightarrow> int64"
  GetHeight :: "'st \<Rightarrow> bytes"
  MarshalBinaryBare_string :: "string \<Rightarrow> error + bytes"
  MarshalBinaryBare_int64 :: "int64 \<Rightarrow> error + bytes"

definition CheckTx_part_001 ::
  "'st helpers_part_001 \<Rightarrow> 'st \<Rightarrow> RequestCheckTx \<Rightarrow> ResponseCheckTx" where
  "CheckTx_part_001 H st req =
     (case ValidateTx H (Tx_c req) st of
        Some err \<Rightarrow> \<lparr>Code_c = 1, Data_c = [], Log_c = [], Info_c = Error_msg err\<rparr>
      | None \<Rightarrow> \<lparr>Code_c = 0, Data_c = [], Log_c = [], Info_c = []\<rparr>)"

definition DeliverTx_part_001 ::
  "'st helpers_part_001 \<Rightarrow> 'st \<Rightarrow> RequestDeliverTx \<Rightarrow> ResponseDeliverTx \<times> 'st" where
  "DeliverTx_part_001 H st req =
     (case ValidateAndDeliverTx H (Tx_d req) st of
        (Some err, st1) \<Rightarrow> (\<lparr>Code_d = 1, Data_d = [], Log_d = [], Info_d = []\<rparr>, st1)
      | (None, st1) \<Rightarrow> (\<lparr>Code_d = 0, Data_d = [], Log_d = [], Info_d = []\<rparr>, st1))"

definition Query_part_001 ::
  "'st helpers_part_001 \<Rightarrow> 'st \<Rightarrow> RequestQuery \<Rightarrow> ResponseQuery" where
  "Query_part_001 H st req =
     (case json_Unmarshal H (Data_rq req) of
        Inl err \<Rightarrow>
          \<lparr>Code_q = 1, Log_q = [],
           Info_q = ''cannot unmarshal request in app query: '' @ Error_msg err, Value_q = []\<rparr>
      | Inr reqData \<Rightarrow>
          if Method reqData = ''getEnvelopeStatus'' then
            (case GetEnvelope H st (ProcessID_q reqData @ ''_'' @ Nullifier_q reqData) of
               Inl err \<Rightarrow> \<lparr>Code_q = 1, Log_q = [], Info_q = [], Value_q = []\<rparr>
             | Inr e \<Rightarrow> \<lparr>Code_q = 0, Log_q = [], Info_q = [], Value_q = []\<rparr>)
          else if Method reqData = ''getEnvelope'' then
            (case GetEnvelope H st (ProcessID_q reqData @ ''_'' @ Nullifier_q reqData) of
               Inl err \<Rightarrow>
                 \<lparr>Code_q = 1, Log_q = [],
                  Info_q = ''cannot get envelope: '' @ Error_msg err, Value_q = []\<rparr>
             | Inr e \<Rightarrow>
                 (case MarshalBinaryBare_string H (VotePackage e) of
                    Inl err \<Rightarrow>
                      \<lparr>Code_q = 1, Log_q = [], Info_q = ''cannot marshal processBytes'',
                       Value_q = []\<rparr>
                  | Inr eBytes \<Rightarrow> \<lparr>Code_q = 0, Log_q = [], Info_q = [], Value_q = eBytes\<rparr>))
          else if Method reqData = ''getEnvelopeHeight'' then
            (let votes = CountVotes H st (ProcessID_q reqData) in
             case MarshalBinaryBare_int64 H votes of
               Inl err \<Rightarrow>
                 \<lparr>Code_q = 1, Log_q = [], Info_q = ''cannot marshal votes count bytes'',
                  Value_q = []\<rparr>
             | Inr vBytes \<Rightarrow> \<lparr>Code_q = 0, Log_q = [], Info_q = [], Value_q = vBytes\<rparr>)
          else if Method reqData = ''getBlockHeight'' then
            \<lparr>Code_q = 0, Log_q = [], Info_q = [], Value_q = GetHeight H st\<rparr>
          else if Method reqData = ''getProcessList'' then
            \<lparr>Code_q = 1, Log_q = [], Info_q = ''not implemented'', Value_q = []\<rparr>
          else if Method reqData = ''getEnvelopeList'' then
            \<lparr>Code_q = 1, Log_q = [], Info_q = ''not implemented'', Value_q = []\<rparr>
          else \<lparr>Code_q = 1, Log_q = [], Info_q = ''undefined query method'', Value_q = []\<rparr>)"

section \<open>Example values\<close>

text \<open>
  Concrete helpers, states and requests, at which the theorems below are instantiated.
\<close>

definition example_process :: "bytes \<Rightarrow> int64 \<Rightarrow> string \<Rightarrow> Process" where
  "example_process eid k t =
     \<lparr>Canceled = False, CommitmentKeys = [], EncryptionPrivateKeys = [],
      EncryptionPublicKeys = [], EntityID = eid, KeyIndex = k, MkRoot = [],
      NumberOfBlocks = 10, Paused = False, RevealKeys = [], StartBlock = 2, Type = t\<rparr>"

definition example_lookup :: "(bytes \<times> Process) list \<Rightarrow> bytes \<Rightarrow> bool \<Rightarrow> error + Process" where
  "example_lookup vs pid committed =
     (case map_of vs pid of
        None \<Rightarrow> Inl (Error ''process not found'')
      | Some p \<Rightarrow> Inr p)"

definition example_isLive ::
  "((bytes \<times> Process) list, bytes list) Scrutinizer \<Rightarrow> bytes \<Rightarrow> error + bool" where
  "example_isLive s pid =
     (case example_lookup (VochainState s) pid False of
        Inl err \<Rightarrow> Inl err
      | Inr p \<Rightarrow> Inr (Type p = PollVote))"

definition example_register ::
  "bytes \<Rightarrow> int64 \<Rightarrow> ((bytes \<times> Process) list, bytes list) Scrutinizer
     \<Rightarrow> ((bytes \<times> Process) list, bytes list) Scrutinizer" where
  "example_register pid blk s = s\<lparr>Storage := Storage s @ [[0x50, ucast blk] @ pid]\<rparr>"

definition example_db :: "bytes list" where
  "example_db = [[0x45, 1], [0x45, 2], [0x50, 7]]"

definition example_open :: "string \<Rightarrow> error + bytes list" where
  "example_open path = (if path = [] then Inl (Error ''empty path'') else Inr example_db)"

definition example_helpers :: "((bytes \<times> Process) list, bytes list) helpers" where
  "example_helpers =
     \<lparr>State_Process = example_lookup,
      AddEventListener = id,
      NewBadgerDB = example_open,
      NewIterator = id,
      ScrutinizerEntityPrefix = 0x45,
      addEntity = (\<lambda>eid pid. id),
      isLiveResultsProcess = example_isLive,
      addLiveResultsProcess = (\<lambda>pid. id),
      registerPendingProcess = example_register,
      addLiveResultsVote = (\<lambda>v s. (None, s))\<rparr>"

definition example_chain :: "(bytes \<times> Process) list" where
  "example_chain =
     [([1], example_process [0xE1] 0 EncryptedPoll),
      ([2], example_process [0xE1] 1 EncryptedPoll),
      ([3], example_process [0xE2] 0 PollVote)]"

definition example_scrutinizer :: "((bytes \<times> Process) list, bytes list) Scrutinizer" where
  "example_scrutinizer =
     \<lparr>VochainState = example_chain, Storage = [], votePool = [], processPool = [],
      resultsPool = [], entityCount = 0\<rparr>"

definition example_vote :: "bytes \<Rightarrow> Vote" where
  "example_vote pid =
     \<lparr>EncryptionKeyIndexes = [], Height = 3, Nullifier = [7], ProcessID_v = pid,
      VotePackage = ''e30=''\<rparr>"

definition example_pool :: "ScrutinizerOnProcessData list" where
  "example_pool =
     [\<lparr>EntityID_d = [0xE1], ProcessID_d = [1]\<rparr>, \<lparr>EntityID_d = [0xE2], ProcessID_d = [3]\<rparr>]"

definition json_field :: "string \<Rightarrow> string \<Rightarrow> string" where
  "json_field k v = [CHR 0x22] @ k @ [CHR 0x22] @ '':'' @ [CHR 0x22] @ v @ [CHR 0x22]"

definition example_query :: bytes where
  "example_query =
     string_bytes (''{'' @ json_field ''method'' ''getEnvelope'' @ '','' @
                   json_field ''processId'' ''aa'' @ '','' @
                   json_field ''nullifier'' ''cc'' @ ''}'')"

definition example_request :: RequestQuery where
  "example_request = \<lparr>Data_rq = example_query, Path_rq = [], Height_rq = 0, Prove_rq = False\<rparr>"

definition example_envelopes :: "(string \<times> Vote) list" where
  "example_envelopes = [(''aa_bb'', example_vote [0xAA])]"

definition example_GetEnvelope :: "(string \<times> Vote) list \<Rightarrow> string \<Rightarrow> error + Vote" where
  "example_GetEnvelope st key =
     (case map_of st key of
        None \<Rightarrow> Inl (Error ''vote does not exist'')
      | Some v \<Rightarrow> Inr v)"

definition example_json_Unmarshal :: "bytes \<Rightarrow> error + QueryData" where
  "example_json_Unmarshal data =
     (if data = example_query
      then Inr \<lparr>Method = ''getEnvelope'', ProcessID_q = ''aa'', Nullifier_q = ''cc'', From = 0,
                ListSize = 0, Timestamp = 0, ProcessType = []\<rparr>
      else Inl (Error ''unexpected end of JSON input''))"

definition example_ValidateTx :: "bytes \<Rightarrow> (string \<times> Vote) list \<Rightarrow> error option" where
  "example_ValidateTx tx st = (if tx = [] then Some (Error ''cannot parse tx'') else None)"

definition example_helpers_part_001 :: "(string \<times> Vote) list helpers_part_001" where
  "example_helpers_part_001 =
     \<lparr>ValidateTx = example_ValidateTx,
      ValidateAndDeliverTx = (\<lambda>tx st. (example_ValidateTx tx st, st)),
      json_Unmarshal = example_json_Unmarshal,
      GetEnvelope = example_GetEnvelope,
      CountVotes = (\<lambda>st pid. word_of_nat (length st)),
      GetHeight = (\<lambda>st. [0]),
      MarshalBinaryBare_string = (\<lambda>s. Inr (string_bytes s)),
      MarshalBinaryBare_int64 = (\<lambda>n. Inr [ucast n])\<rparr>"

definition example_recheck :: RequestCheckTx where
  "example_recheck = \<lparr>Tx_c = [], Type_c = CheckTxType_Recheck\<rparr>"

section \<open>Properties\<close>

text \<open>
  \<^bold>\<open>Rollback and the callbacks.\<close> No callback touches the chain state, the storage
  or the entity counter, so a rollback after any callbacks gives the state a rollback
  before them gives.
\<close>

lemma Rollback_deliver: "Rollback (deliver H ev s) = Rollback s"
  by (cases ev)
     (simp_all add: Rollback_def OnProcess_def OnVote_def OnCancel_def OnProcessKeys_def
        OnRevealKeys_def Let_def split: sum.split)

lemma Rollback_fold_deliver: "Rollback (fold (deliver H) evs s) = Rollback s"
  by (induction evs arbitrary: s) (simp_all add: Rollback_deliver)

text \<open>
  \<^bold>\<open>C2.\<close> \<open>OnRevealKeys\<close> on process \<open>pid\<close> appends \<open>pid\<close> (with the entity of the
  fetched process) to \<open>resultsPool\<close> exactly when the process fetched from the chain
  state has a \<open>KeyIndex\<close> below 1. In every other case (the fetch fails, or the
  \<open>KeyIndex\<close> is 1 or more) the scrutinizer is left as it was, so nothing is added.
\<close>

theorem OnRevealKeys_resultsPool:
  "(\<exists>p. State_Process H (VochainState s) pid False = Inr p \<and> sint (KeyIndex p) < 1
        \<and> OnRevealKeys H pid pub com s =
            s\<lparr>resultsPool := resultsPool s @ [\<lparr>EntityID_d = EntityID p, ProcessID_d = pid\<rparr>]\<rparr>)
   \<or> (\<not> (\<exists>p. State_Process H (VochainState s) pid False = Inr p \<and> sint (KeyIndex p) < 1)
        \<and> OnRevealKeys H pid pub com s = s)"
  by (cases "State_Process H (VochainState s) pid False")
     (simp_all add: OnRevealKeys_def Let_def word_sless_alt)

text \<open>
  At the example chain: process 1 has \<open>KeyIndex\<close> 0 and is queued, process 2 has
  \<open>KeyIndex\<close> 1 and process 9 does not exist, and neither is queued.
\<close>

theorem OnRevealKeys_resultsPool_witness:
  "resultsPool (OnRevealKeys example_helpers [1] '''' '''' example_scrutinizer) =
     [\<lparr>EntityID_d = [0xE1], ProcessID_d = [1]\<rparr>]
   \<and> OnRevealKeys example_helpers [2] '''' '''' example_scrutinizer = example_scrutinizer
   \<and> OnRevealKeys example_helpers [9] '''' '''' example_scrutinizer = example_scrutinizer"
  using OnRevealKeys_resultsPool [of example_helpers example_scrutinizer "[1]" "''''" "''''"]
    OnRevealKeys_resultsPool [of example_helpers example_scrutinizer "[2]" "''''" "''''"]
    OnRevealKeys_resultsPool [of example_helpers example_scrutinizer "[9]" "''''" "''''"]
  by (simp add: example_helpers_def example_scrutinizer_def example_chain_def
      example_lookup_def example_process_def)

text \<open>
  \<^bold>\<open>C3.\<close> \<open>OnVote\<close> appends the vote to \<open>votePool\<close> exactly when
  \<open>isLiveResultsProcess\<close> answers \<open>true\<close> without an error for the vote's process. In
  every other case (the answer is \<open>false\<close>, or the check fails) the scrutinizer is
  left as it was: the vote is not buffered.
\<close>

theorem OnVote_votePool:
  "(isLiveResultsProcess H s (ProcessID_v v) = Inr True
        \<and> OnVote H v s = s\<lparr>votePool := votePool s @ [v]\<rparr>)
   \<or> (isLiveResultsProcess H s (ProcessID_v v) \<noteq> Inr True \<and> OnVote H v s = s)"
  by (cases "isLiveResultsProcess H s (ProcessID_v v)") (simp_all add: OnVote_def)

text \<open>
  At the example chain: process 3 is a poll vote (live results) and its vote is buffered;
  process 1 is an encrypted poll and process 9 does not exist, and their votes are not.
\<close>

theorem OnVote_votePool_witness:
  "votePool (OnVote example_helpers (example_vote [3]) example_scrutinizer) = [example_vote [3]]
   \<and> OnVote example_helpers (example_vote [1]) example_scrutinizer = example_scrutinizer
   \<and> OnVote example_helpers (example_vote [9]) example_scrutinizer = example_scrutinizer"
  using OnVote_votePool [of example_helpers example_scrutinizer "example_vote [3]"]
    OnVote_votePool [of example_helpers example_scrutinizer "example_vote [1]"]
    OnVote_votePool [of example_helpers example_scrutinizer "example_vote [9]"]
  by (simp add: example_helpers_def example_scrutinizer_def example_chain_def
      example_lookup_def example_process_def example_isLive_def example_vote_def
      PollVote_def EncryptedPoll_def)

text \<open>
  \<^bold>\<open>C9.\<close> \<open>Rollback\<close> leaves the three pools empty and keeps the chain state, the
  storage and \<open>entityCount\<close>. Whatever callbacks ran before it, their buffered events
  are gone: the result is the one of a rollback without them.
\<close>

theorem Rollback_resets_buffers:
  "votePool (Rollback s) = [] \<and> processPool (Rollback s) = [] \<and> resultsPool (Rollback s) = []
   \<and> VochainState (Rollback s) = VochainState s \<and> Storage (Rollback s) = Storage s
   \<and> entityCount (Rollback s) = entityCount s
   \<and> Rollback (fold (deliver H) evs s) = Rollback s"
  by (simp add: Rollback_fold_deliver) (simp add: Rollback_def)

lemma deliver_EvCancel: "deliver H (EvCancel pid) s = s"
  by (simp add: OnCancel_def)

text \<open>
  \<^bold>\<open>The cancel callback.\<close> \<open>OnCancel\<close> has an empty body, so the callback itself
  changes nothing, and a run of callbacks or a \<open>Commit\<close> gives the same result with
  and without it. This is a statement about the callback only. Whether a stored live
  tally of the process is kept afterwards is decided by \<open>checkFinishedProcesses\<close> and
  by the bodies of the helpers of \<open>Commit\<close>, which are parameters here: the lemma
  holds for helpers that keep the tally and for helpers that delete it.
\<close>

lemma OnCancel_unchanged:
  "OnCancel pid s = s
   \<and> Commit H height (OnCancel pid s) = Commit H height s
   \<and> fold (deliver H) (evs1 @ [EvCancel pid] @ evs2) s = fold (deliver H) (evs1 @ evs2) s"
  by (simp add: deliver_EvCancel) (simp add: OnCancel_def)

lemma go_index_RequireKeys:
  "go_index ProcessRequireKeys t = (t = EncryptedPoll \<or> t = SnarkVote)"
  by (auto simp add: go_index_def ProcessRequireKeys_def PollVote_def PetitionSign_def
      EncryptedPoll_def SnarkVote_def)

lemma go_index_IsEncrypted:
  "go_index ProcessIsEncrypted t = (t = EncryptedPoll \<or> t = SnarkVote)"
  by (auto simp add: go_index_def ProcessIsEncrypted_def PollVote_def PetitionSign_def
      EncryptedPoll_def SnarkVote_def)

text \<open>
  \<^bold>\<open>C8.\<close> \<open>RequireKeys\<close> and \<open>IsEncrypted\<close> both hold exactly for the process types
  \<open>encrypted-poll\<close> and \<open>snark-vote\<close>; both are false for \<open>poll-vote\<close> and
  \<open>petition-sign\<close>.
\<close>

theorem RequireKeys_IsEncrypted_types:
  "RequireKeys p = (Type p = EncryptedPoll \<or> Type p = SnarkVote)
   \<and> IsEncrypted p = (Type p = EncryptedPoll \<or> Type p = SnarkVote)
   \<and> \<not> RequireKeys (p\<lparr>Type := PollVote\<rparr>) \<and> \<not> IsEncrypted (p\<lparr>Type := PollVote\<rparr>)
   \<and> \<not> RequireKeys (p\<lparr>Type := PetitionSign\<rparr>) \<and> \<not> IsEncrypted (p\<lparr>Type := PetitionSign\<rparr>)
   \<and> RequireKeys (p\<lparr>Type := EncryptedPoll\<rparr>) \<and> IsEncrypted (p\<lparr>Type := EncryptedPoll\<rparr>)
   \<and> RequireKeys (p\<lparr>Type := SnarkVote\<rparr>) \<and> IsEncrypted (p\<lparr>Type := SnarkVote\<rparr>)"
  unfolding RequireKeys_def IsEncrypted_def go_index_RequireKeys go_index_IsEncrypted
  by (simp add: PollVote_def PetitionSign_def EncryptedPoll_def SnarkVote_def)

text \<open>
  \<^bold>\<open>Signed 64-bit arithmetic\<close> without wrap-around.
\<close>

lemma sint_word_of_int_64:
  assumes "- (2 ^ 63) \<le> x" "x < 2 ^ 63"
  shows "sint (word_of_int x :: int64) = x"
proof -
  have "sint (word_of_int x :: int64) = signed_take_bit 63 x"
    by (simp add: sint_sbintrunc')
  also have "\<dots> = x"
    using assms by (intro signed_take_bit_int_eq_self) simp_all
  finally show ?thesis .
qed

lemma sint_staggered:
  fixes height :: int64
  assumes "0 \<le> sint height" "sint height + int i + 1 < 2 ^ 63"
  shows "sint (height + word_of_nat i + 1) = sint height + int i + 1"
proof -
  have "height + word_of_nat i + 1 = (word_of_int (sint height + int i + 1) :: int64)"
    by simp
  then show ?thesis
    using assms sint_word_of_int_64 [of "sint height + int i + 1"] by simp
qed

text \<open>
  \<^bold>\<open>The loop over resultsPool\<close>, started at any index.
\<close>

lemma Commit_resultsPool_from:
  "Commit_resultsPool H height k pool s =
     fold (\<lambda>(i, p). registerPendingProcess H (ProcessID_d p) (height + word_of_nat i + 1))
       (enumerate k pool) s"
  by (induction pool arbitrary: k s) (simp_all add: ac_simps)

text \<open>
  \<^bold>\<open>C1.\<close> The loop of \<open>Commit\<close> over \<open>resultsPool\<close> calls
  \<open>registerPendingProcess\<close> once for each element, in order, with the process at
  index \<open>i\<close> and the block \<open>height + i + 1\<close> (in \<open>int64\<close> arithmetic); \<open>Commit\<close>
  runs that loop between the loop over \<open>processPool\<close> and the loop over \<open>votePool\<close>.
  For a block height that is not negative and a pool that does not reach beyond the
  largest \<open>int64\<close>, the block is \<open>height + i + 1\<close> as an integer: each element one
  block after the previous one.
\<close>

theorem Commit_resultsPool_staggered:
  "Commit_resultsPool H height 0 pool s =
     fold (\<lambda>(i, p). registerPendingProcess H (ProcessID_d p) (height + word_of_nat i + 1))
       (enumerate 0 pool) s
   \<and> Commit H height s =
       (let s1 = Commit_processPool H (processPool s) s;
            s2 = fold (\<lambda>(i, p). registerPendingProcess H (ProcessID_d p)
                                    (height + word_of_nat i + 1))
                   (enumerate 0 (resultsPool s1)) s1
        in snd (Commit_votePool H (votePool s2) 0 s2))
   \<and> (0 \<le> sint height \<and> sint height + int (length pool) < 2 ^ 63 \<longrightarrow>
        (\<forall>i < length pool.
           enumerate 0 pool ! i = (i, pool ! i)
           \<and> sint (height + word_of_nat i + 1) = sint height + int i + 1))"
proof (intro conjI impI allI)
  show "Commit_resultsPool H height 0 pool s =
     fold (\<lambda>(i, p). registerPendingProcess H (ProcessID_d p) (height + word_of_nat i + 1))
       (enumerate 0 pool) s"
    by (rule Commit_resultsPool_from)
next
  show "Commit H height s =
       (let s1 = Commit_processPool H (processPool s) s;
            s2 = fold (\<lambda>(i, p). registerPendingProcess H (ProcessID_d p)
                                    (height + word_of_nat i + 1))
                   (enumerate 0 (resultsPool s1)) s1
        in snd (Commit_votePool H (votePool s2) 0 s2))"
    by (simp add: Commit_def Commit_resultsPool_from)
next
  fix i
  assume h: "0 \<le> sint height \<and> sint height + int (length pool) < 2 ^ 63" and i: "i < length pool"
  then show "enumerate 0 pool ! i = (i, pool ! i)"
    by (simp add: nth_enumerate_eq)
  from h i have "sint height + int i + 1 < 2 ^ 63" by linarith
  with h show "sint (height + word_of_nat i + 1) = sint height + int i + 1"
    by (simp add: sint_staggered)
qed

text \<open>
  At height 10 with two processes in the pool, the registrations are for the blocks 11
  and 12 (the example \<open>registerPendingProcess\<close> appends a key made of the block and
  the process to the storage).
\<close>

theorem Commit_resultsPool_staggered_witness:
  "(0 \<le> sint (10 :: int64) \<and> sint (10 :: int64) + int (length example_pool) < 2 ^ 63)
   \<and> Storage (Commit_resultsPool example_helpers 10 0 example_pool example_scrutinizer) =
       [[0x50, 11, 1], [0x50, 12, 3]]
   \<and> Storage (Commit example_helpers 10 (example_scrutinizer\<lparr>resultsPool := example_pool\<rparr>)) =
       [[0x50, 11, 1], [0x50, 12, 3]]
   \<and> sint (10 + word_of_nat 1 + 1 :: int64) = 12"
  using Commit_resultsPool_staggered [of example_helpers 10 example_pool example_scrutinizer]
    Commit_resultsPool_staggered [of example_helpers 10 example_pool
      "example_scrutinizer\<lparr>resultsPool := example_pool\<rparr>"]
  by (simp add: example_pool_def example_helpers_def example_scrutinizer_def
      example_register_def enumerate_eq_zip)

text \<open>
  \<^bold>\<open>List and the iterator.\<close> The bound \<open>int64(^uint(0)>>1)\<close> is the largest
  \<open>int64\<close>. In a sorted key sequence the keys with a given prefix are contiguous and
  begin where \<open>Seek\<close> stops, so \<open>List\<close> without \<open>from\<close> returns all of them.
\<close>

lemma maxint64: "(drop_bit 1 (NOT 0) :: int64) = 9223372036854775807"
  by (simp add: mask_eq_exp_minus_1)

lemma sint_dec:
  fixes m :: int64
  assumes "1 \<le> sint m"
  shows "sint (m - 1) = sint m - 1"
proof -
  have lo: "- (2 ^ 63) \<le> sint m" and hi: "sint m < 2 ^ 63"
    using sint_ge [of m] sint_lt [of m] by simp_all
  have "m - 1 = (word_of_int (sint m - 1) :: int64)"
    by simp
  then show ?thesis
    using assms lo hi sint_word_of_int_64 [of "sint m - 1"] by simp
qed

lemma has_prefix_not_less: "take (length P) k = P \<Longrightarrow> \<not> k < (P :: bytes)"
proof (induction P arbitrary: k)
  case Nil then show ?case by simp
next
  case (Cons a P)
  then show ?case by (cases k) auto
qed

lemma above_prefix:
  "\<not> k < (P :: bytes) \<Longrightarrow> take (length P) k \<noteq> P \<Longrightarrow> k < k' \<Longrightarrow> take (length P) k' \<noteq> P"
proof (induction P arbitrary: k k')
  case Nil then show ?case by simp
next
  case (Cons a P)
  show ?case
  proof (cases k)
    case Nil with Cons.prems show ?thesis by simp
  next
    case kc: (Cons b kr)
    show ?thesis
    proof (cases k')
      case Nil then show ?thesis by simp
    next
      case kc': (Cons c kr')
      with kc Cons.prems Cons.IH [of kr kr'] show ?thesis by auto
    qed
  qed
qed

lemma takeWhile_prefix_sorted:
  "sorted_wrt (<) ks \<Longrightarrow> \<forall>x\<in>set ks. \<not> x < (P :: bytes) \<Longrightarrow>
   takeWhile (\<lambda>k. take (length P) k = P) ks = filter (\<lambda>k. take (length P) k = P) ks"
proof (induction ks)
  case Nil then show ?case by simp
next
  case (Cons k ks)
  show ?case
  proof (cases "take (length P) k = P")
    case True
    with Cons show ?thesis by simp
  next
    case False
    have "\<forall>x\<in>set ks. take (length P) x \<noteq> P"
      using Cons.prems False above_prefix [of k P] by auto
    then have "filter (\<lambda>k. take (length P) k = P) ks = []"
      by (simp add: filter_empty_conv)
    with False show ?thesis by simp
  qed
qed

lemma Seek_prefix_sorted:
  "sorted_wrt (<) ks \<Longrightarrow>
   takeWhile (\<lambda>k. take (length P) k = P) (Seek ks P) = filter (\<lambda>k. take (length P) k = P) ks"
proof (induction ks)
  case Nil then show ?case by (simp add: Seek_def)
next
  case (Cons k ks)
  show ?case
  proof (cases "k < P")
    case True
    then have "take (length P) k \<noteq> P" using has_prefix_not_less by blast
    with True Cons show ?thesis by (simp add: Seek_def)
  next
    case False
    have "\<forall>x\<in>set (k # ks). \<not> x < P"
      using Cons.prems False by (auto dest: less_trans)
    with False Cons.prems show ?thesis
      using takeWhile_prefix_sorted [of "k # ks" P] by (simp add: Seek_def)
  qed
qed

lemma List_loop_all:
  "1 \<le> sint mx \<Longrightarrow>
   List_loop mx [] prefix it lst =
     lst @ take (nat (sint mx))
             (map (drop (length prefix)) (takeWhile (\<lambda>k. take (length prefix) k = prefix) it))"
proof (induction it arbitrary: mx lst)
  case Nil then show ?case by simp
next
  case (Cons k it)
  show ?case
  proof (cases "take (length prefix) k = prefix")
    case False then show ?thesis by simp
  next
    case True
    have d: "sint (mx - 1) = sint mx - 1" using Cons.prems by (rule sint_dec)
    show ?thesis
    proof (cases "mx - 1 <s 1")
      case True
      then have "sint mx = 1" using d Cons.prems by (simp add: word_sless_alt)
      with True \<open>take (length prefix) k = prefix\<close> show ?thesis by (simp add: Let_def)
    next
      case False
      then have g: "1 \<le> sint (mx - 1)" by (simp add: word_sless_alt)
      have "nat (sint mx) = Suc (nat (sint (mx - 1)))" using d g by simp
      with False \<open>take (length prefix) k = prefix\<close> Cons.IH [OF g] show ?thesis
        by (simp add: Let_def)
    qed
  qed
qed

lemma List_all_keys:
  assumes "sorted_wrt (<) (NewIterator H (Storage s))"
    and "length (NewIterator H (Storage s)) < 2 ^ 63"
  shows "List H (drop_bit 1 (NOT 0)) [] prefix s =
           map (drop (length prefix))
             (filter (\<lambda>k. take (length prefix) k = prefix) (NewIterator H (Storage s)))"
proof -
  let ?ks = "NewIterator H (Storage s)"
  let ?f = "filter (\<lambda>k. take (length prefix) k = prefix) ?ks"
  have "length ?f \<le> length ?ks" by simp
  with assms(2) have "length ?f < 2 ^ 63" by linarith
  then have t: "take 9223372036854775807 (map (drop (length prefix)) ?f)
                  = map (drop (length prefix)) ?f"
    by simp
  have "List H (drop_bit 1 (NOT 0)) [] prefix s =
          List_loop 9223372036854775807 [] prefix (Seek ?ks prefix) []"
    by (simp only: List_def maxint64 append_Nil2)
  also have "\<dots> =
          take (nat (sint (9223372036854775807 :: int64)))
            (map (drop (length prefix))
               (takeWhile (\<lambda>k. take (length prefix) k = prefix) (Seek ?ks prefix)))"
    by (simp add: List_loop_all)
  also have "\<dots> = take 9223372036854775807 (map (drop (length prefix)) ?f)"
    using assms(1) by (simp add: Seek_prefix_sorted)
  finally show ?thesis using t by simp
qed

text \<open>
  \<^bold>\<open>C7.\<close> When the database opens, \<open>NewScrutinizer\<close> returns a scrutinizer with
  empty pools whose \<open>entityCount\<close> is the number of keys of the database that start
  with the entity prefix. The iterator visits the keys in strictly ascending byte-wise
  order, and a database holds fewer than \<open>2 ^ 63\<close> keys.
\<close>

theorem NewScrutinizer_entityCount:
  assumes "NewBadgerDB H dbPath = Inr db"
    and "sorted_wrt (<) (NewIterator H db)"
    and "length (NewIterator H db) < 2 ^ 63"
  shows "\<exists>s. NewScrutinizer H dbPath state = Inr s \<and> Storage s = db
           \<and> votePool s = [] \<and> processPool s = [] \<and> resultsPool s = []
           \<and> sint (entityCount s) =
               int (card {k \<in> set (NewIterator H db). take 1 k = [ScrutinizerEntityPrefix H]})"
proof -
  let ?ks = "NewIterator H db"
  let ?s0 = "\<lparr>VochainState = state, Storage = db, votePool = [], processPool = [],
              resultsPool = [], entityCount = 0\<rparr>"
  let ?f = "filter (\<lambda>k. take 1 k = [ScrutinizerEntityPrefix H]) ?ks"
  have l: "List H (drop_bit 1 (NOT 0)) [] [ScrutinizerEntityPrefix H] ?s0 = map (drop 1) ?f"
    using assms(2,3) List_all_keys [of H ?s0 "[ScrutinizerEntityPrefix H]"] by simp
  have "distinct ?ks"
    using assms(2) strict_sorted_iff by blast
  then have c: "card {k \<in> set ?ks. take 1 k = [ScrutinizerEntityPrefix H]} = length ?f"
    using distinct_card [of ?f] by simp
  have "length ?f \<le> length ?ks" by simp
  with assms(3) have "length ?f < 2 ^ 63" by linarith
  then have "int (length ?f) < int (2 ^ 63)" by (simp only: of_nat_less_iff)
  then have b: "int (length ?f) < 2 ^ 63" by simp
  have "sint (word_of_nat (length ?f) :: int64) = int (length ?f)"
    using b sint_word_of_int_64 [of "int (length ?f)"] by simp
  with l c show ?thesis
    using assms(1) unfolding NewScrutinizer_def Let_def by simp
qed

lemma example_db_entities:
  "{k \<in> set example_db. take 1 k = [0x45]} = {[0x45, 1], [0x45, 2]}"
  by (auto simp add: example_db_def)

text \<open>
  A database with two keys under the entity prefix \<open>0x45\<close> and one under another
  prefix: the count is 2.
\<close>

theorem NewScrutinizer_entityCount_witness:
  "NewBadgerDB example_helpers ''scrutinizer'' = Inr example_db
   \<and> sorted_wrt (<) (NewIterator example_helpers example_db)
   \<and> length (NewIterator example_helpers example_db) < 2 ^ 63
   \<and> (\<exists>s. NewScrutinizer example_helpers ''scrutinizer'' example_chain = Inr s
          \<and> Storage s = example_db \<and> sint (entityCount s) = 2)"
proof -
  have a: "NewBadgerDB example_helpers ''scrutinizer'' = Inr example_db"
    by (simp add: example_helpers_def example_open_def)
  have b: "sorted_wrt (<) (NewIterator example_helpers example_db)"
    by (simp add: example_helpers_def example_db_def)
  have c: "length (NewIterator example_helpers example_db) < 2 ^ 63"
    by (simp add: example_helpers_def example_db_def)
  have "{k \<in> set (NewIterator example_helpers example_db).
           take 1 k = [ScrutinizerEntityPrefix example_helpers]} = {[0x45, 1], [0x45, 2]}"
    using example_db_entities by (simp add: example_helpers_def)
  then have e: "card {k \<in> set (NewIterator example_helpers example_db).
                  take 1 k = [ScrutinizerEntityPrefix example_helpers]} = 2"
    by simp
  from NewScrutinizer_entityCount [OF a b c, of example_chain] e
  have "\<exists>s. NewScrutinizer example_helpers ''scrutinizer'' example_chain = Inr s
          \<and> Storage s = example_db \<and> sint (entityCount s) = 2"
    by auto
  with a b c show ?thesis by blast
qed

text \<open>
  \<^bold>\<open>Query.\<close> The dispatching \<open>Query\<close> of part\_001 answers with code 0 or 1. The
  lemmas say when the code is 0, and which requests get the answers
  \<open>undefined query method\<close> and \<open>not implemented\<close>.
\<close>

lemma Query_part_001_code: 
  "Code_q (Query_part_001 H st req) = 0 \<or> Code_q (Query_part_001 H st req) = 1"
  by (simp add: Query_part_001_def Let_def split: sum.split)

lemma Query_part_001_success:
  "(Code_q (Query_part_001 H st req) = 0) =
     (\<exists>d. json_Unmarshal H (Data_rq req) = Inr d \<and>
        (Method d = ''getEnvelopeStatus''
           \<and> (\<exists>e. GetEnvelope H st (ProcessID_q d @ ''_'' @ Nullifier_q d) = Inr e)
         \<or> Method d = ''getEnvelope''
           \<and> (\<exists>e b. GetEnvelope H st (ProcessID_q d @ ''_'' @ Nullifier_q d) = Inr e
                     \<and> MarshalBinaryBare_string H (VotePackage e) = Inr b)
         \<or> Method d = ''getEnvelopeHeight''
           \<and> (\<exists>b. MarshalBinaryBare_int64 H (CountVotes H st (ProcessID_q d)) = Inr b)
         \<or> Method d = ''getBlockHeight''))"
  by (cases "json_Unmarshal H (Data_rq req)")
     (auto simp add: Query_part_001_def Let_def split: sum.splits)

lemma Query_part_001_undefined:
  "(Info_q (Query_part_001 H st req) = ''undefined query method'') =
     (\<exists>d. json_Unmarshal H (Data_rq req) = Inr d
          \<and> Method d \<notin> {''getEnvelopeStatus'', ''getEnvelope'', ''getEnvelopeHeight'',
                          ''getBlockHeight'', ''getProcessList'', ''getEnvelopeList''})"
  by (cases "json_Unmarshal H (Data_rq req)")
     (auto simp add: Query_part_001_def Let_def split: sum.splits)

lemma Query_part_001_not_implemented:
  "(Info_q (Query_part_001 H st req) = ''not implemented'') =
     (\<exists>d. json_Unmarshal H (Data_rq req) = Inr d
          \<and> (Method d = ''getProcessList'' \<or> Method d = ''getEnvelopeList''))"
  by (cases "json_Unmarshal H (Data_rq req)")
     (auto simp add: Query_part_001_def Let_def split: sum.splits)

lemma Query_part_001_missing_envelope:
  "json_Unmarshal H (Data_rq req) = Inr d \<Longrightarrow>
   Method d = ''getEnvelopeStatus'' \<or> Method d = ''getEnvelope'' \<Longrightarrow>
   GetEnvelope H st (ProcessID_q d @ ''_'' @ Nullifier_q d) = Inl err \<Longrightarrow>
   Code_q (Query_part_001 H st req) = 1"
  by (auto simp add: Query_part_001_def)

text \<open>
  \<^bold>\<open>C4\<close> (as amended). The \<open>Query\<close> of part\_000 dispatches nothing: it returns the
  zero response, code 0, for every request. The \<open>Query\<close> of part\_001 only reads the
  state and dispatches on the method name: it returns code 0 exactly for
  \<open>getEnvelopeStatus\<close> on an envelope that exists, \<open>getEnvelope\<close> on an envelope that
  exists and whose package marshals, \<open>getEnvelopeHeight\<close> when the count marshals, and
  \<open>getBlockHeight\<close>, and code 1 otherwise. A method other than the six names is
  answered \<open>undefined query method\<close>; \<open>getProcessList\<close> and \<open>getEnvelopeList\<close> are
  answered \<open>not implemented\<close>. In particular a request for an envelope that does not
  exist gets code 1.
\<close>

theorem Query_dispatch:
  "Query_part_000 app req = \<lparr>Code_q = 0, Log_q = [], Info_q = [], Value_q = []\<rparr>
   \<and> (Code_q (Query_part_001 H st req) = 0 \<or> Code_q (Query_part_001 H st req) = 1)
   \<and> (Code_q (Query_part_001 H st req) = 0) =
       (\<exists>d. json_Unmarshal H (Data_rq req) = Inr d \<and>
          (Method d = ''getEnvelopeStatus''
             \<and> (\<exists>e. GetEnvelope H st (ProcessID_q d @ ''_'' @ Nullifier_q d) = Inr e)
           \<or> Method d = ''getEnvelope''
             \<and> (\<exists>e b. GetEnvelope H st (ProcessID_q d @ ''_'' @ Nullifier_q d) = Inr e
                       \<and> MarshalBinaryBare_string H (VotePackage e) = Inr b)
           \<or> Method d = ''getEnvelopeHeight''
             \<and> (\<exists>b. MarshalBinaryBare_int64 H (CountVotes H st (ProcessID_q d)) = Inr b)
           \<or> Method d = ''getBlockHeight''))
   \<and> (Info_q (Query_part_001 H st req) = ''undefined query method'') =
       (\<exists>d. json_Unmarshal H (Data_rq req) = Inr d
            \<and> Method d \<notin> {''getEnvelopeStatus'', ''getEnvelope'', ''getEnvelopeHeight'',
                            ''getBlockHeight'', ''getProcessList'', ''getEnvelopeList''})
   \<and> (Info_q (Query_part_001 H st req) = ''not implemented'') =
       (\<exists>d. json_Unmarshal H (Data_rq req) = Inr d
            \<and> (Method d = ''getProcessList'' \<or> Method d = ''getEnvelopeList''))
   \<and> (\<forall>d err. json_Unmarshal H (Data_rq req) = Inr d
          \<and> (Method d = ''getEnvelopeStatus'' \<or> Method d = ''getEnvelope'')
          \<and> GetEnvelope H st (ProcessID_q d @ ''_'' @ Nullifier_q d) = Inl err
          \<longrightarrow> Code_q (Query_part_001 H st req) = 1)"
  using Query_part_001_code [of H st req] Query_part_001_success [of H st req]
    Query_part_001_undefined [of H st req] Query_part_001_not_implemented [of H st req]
    Query_part_001_missing_envelope [of H req _ st]
  by (simp add: Query_part_000_def)

text \<open>
  A \<open>getEnvelope\<close> request for the envelope \<open>aa_cc\<close>, which the example state does
  not hold: code 1.
\<close>

theorem Query_dispatch_witness:
  "json_Unmarshal example_helpers_part_001 (Data_rq example_request) =
     Inr \<lparr>Method = ''getEnvelope'', ProcessID_q = ''aa'', Nullifier_q = ''cc'', From = 0,
          ListSize = 0, Timestamp = 0, ProcessType = []\<rparr>
   \<and> GetEnvelope example_helpers_part_001 example_envelopes (''aa'' @ ''_'' @ ''cc'') =
       Inl (Error ''vote does not exist'')
   \<and> Code_q (Query_part_001 example_helpers_part_001 example_envelopes example_request) = 1"
  using Query_dispatch [of "()" example_request example_helpers_part_001 example_envelopes]
  by (simp add: example_helpers_part_001_def example_json_Unmarshal_def example_request_def
      example_GetEnvelope_def example_envelopes_def)

text \<open>
  The same request to the \<open>Query\<close> of part\_000, over the same state: code 0, although
  the envelope does not exist.
\<close>

theorem Query_part_000_counterexample:
  "map_of example_envelopes (''aa'' @ ''_'' @ ''cc'') = None
   \<and> Code_q (Query_part_000 example_envelopes example_request) = 0"
  by (simp add: Query_part_000_def example_envelopes_def)

text \<open>
  \<^bold>\<open>C5\<close> (as amended). The \<open>CheckTx\<close> of part\_000 answers a request of type
  \<open>Recheck\<close> with code 0 and no data, whatever the decoder and the validator are, and
  leaves the state as it was. The \<open>CheckTx\<close> of part\_001 does not look at the type
  of the request: it validates every request and returns code 0 exactly when
  \<open>ValidateTx\<close> reports no error.
\<close>

theorem CheckTx_Recheck:
  "CheckTx_part_000 H st (req\<lparr>Type_c := CheckTxType_Recheck\<rparr>) =
     (\<lparr>Code_c = 0, Data_c = [], Log_c = [], Info_c = []\<rparr>, st)
   \<and> CheckTx_part_001 H1 st1 (req\<lparr>Type_c := t\<rparr>) = CheckTx_part_001 H1 st1 req
   \<and> (Code_c (CheckTx_part_001 H1 st1 req) = 0) = (ValidateTx H1 (Tx_c req) st1 = None)"
  by (simp add: CheckTx_part_000_def CheckTx_part_001_def split: option.split)

text \<open>
  A request of type \<open>Recheck\<close> with an empty transaction, which the validator rejects:
  the \<open>CheckTx\<close> of part\_001 validates it and returns code 1.
\<close>

theorem CheckTx_part_001_Recheck_counterexample:
  "Type_c example_recheck = CheckTxType_Recheck
   \<and> CheckTx_part_001 example_helpers_part_001 example_envelopes example_recheck =
       \<lparr>Code_c = 1, Data_c = [], Log_c = [], Info_c = ''cannot parse tx''\<rparr>"
  by (simp add: CheckTx_part_001_def example_recheck_def example_helpers_part_001_def
      example_ValidateTx_def)

text \<open>
  \<^bold>\<open>Rejected transactions.\<close> The \<open>CheckTx\<close> and \<open>DeliverTx\<close> of part\_000 return
  code 1 with the error's message as \<open>Data\<close>, the \<open>CheckTx\<close> of part\_001 returns
  code 1 with the message as \<open>Info\<close>, and the \<open>DeliverTx\<close> of part\_001 returns code 1
  alone.
\<close>

lemma CheckTx_part_000_rejected:
  "Type_c req \<noteq> CheckTxType_Recheck \<Longrightarrow>
   UnmarshalTx H (Tx_c req) = Inl err
     \<or> (\<exists>tx. UnmarshalTx H (Tx_c req) = Inr tx \<and> fst (AddTx H tx st False) = Inl err) \<Longrightarrow>
   fst (CheckTx_part_000 H st req) =
     \<lparr>Code_c = 1, Data_c = string_bytes (Error_msg err), Log_c = [], Info_c = []\<rparr>"
  by (auto simp add: CheckTx_part_000_def split: prod.split sum.split)

lemma DeliverTx_part_000_rejected:
  "UnmarshalTx H (Tx_d req) = Inl err
     \<or> (\<exists>tx. UnmarshalTx H (Tx_d req) = Inr tx \<and> fst (AddTx H tx st True) = Inl err) \<Longrightarrow>
   fst (DeliverTx_part_000 H st req) =
     \<lparr>Code_d = 1, Data_d = string_bytes (Error_msg err), Log_d = [], Info_d = []\<rparr>"
  by (auto simp add: DeliverTx_part_000_def split: prod.split sum.split)

lemma CheckTx_part_001_rejected:
  "ValidateTx H (Tx_c req) st = Some err \<Longrightarrow>
   CheckTx_part_001 H st req =
     \<lparr>Code_c = 1, Data_c = [], Log_c = [], Info_c = Error_msg err\<rparr>"
  by (simp add: CheckTx_part_001_def)

lemma DeliverTx_part_001_rejected:
  "fst (ValidateAndDeliverTx H (Tx_d req) st) = Some err \<Longrightarrow>
   fst (DeliverTx_part_001 H st req) = \<lparr>Code_d = 1, Data_d = [], Log_d = [], Info_d = []\<rparr>"
  by (cases "ValidateAndDeliverTx H (Tx_d req) st") (simp add: DeliverTx_part_001_def)

text \<open>
  \<^bold>\<open>C6\<close> (the code at the failing input). The claim is that a transaction rejected
  in \<open>CheckTx\<close> or \<open>DeliverTx\<close> is answered with a non-zero code and the error's
  message. For an empty transaction, which the example validator rejects with the
  message \<open>cannot parse tx\<close>, the \<open>DeliverTx\<close> of part\_001 returns code 1 with empty
  \<open>Data\<close>, \<open>Log\<close> and \<open>Info\<close>: the message is lost. The \<open>CheckTx\<close> of the same
  file returns the message for the same transaction.
\<close>

theorem DeliverTx_part_001_drops_message:
  "ValidateAndDeliverTx example_helpers_part_001 (Tx_d \<lparr>Tx_d = []\<rparr>) example_envelopes =
     (Some (Error ''cannot parse tx''), example_envelopes)
   \<and> DeliverTx_part_001 example_helpers_part_001 example_envelopes \<lparr>Tx_d = []\<rparr> =
       (\<lparr>Code_d = 1, Data_d = [], Log_d = [], Info_d = []\<rparr>, example_envelopes)
   \<and> CheckTx_part_001 example_helpers_part_001 example_envelopes
         \<lparr>Tx_c = [], Type_c = CheckTxType_New\<rparr> =
       \<lparr>Code_c = 1, Data_c = [], Log_c = [], Info_c = ''cannot parse tx''\<rparr>"
  by (simp add: DeliverTx_part_001_def CheckTx_part_001_def example_helpers_part_001_def
      example_ValidateTx_def)

end
